theory Spec2Isabelle
  imports Main "HOL-Library.Word" "HOL-Library.Sublist"
begin

section \<open>Strings of the source language\<close>

text \<open>
  A TypeScript string is a sequence of 16-bit code units. The literals of the two source
  files are ASCII; \<open>lit\<close> reads such a literal as a sequence of code units.
\<close>

type_synonym jsstring = "16 word list"

definition lit :: "string \<Rightarrow> jsstring" where
  "lit cs = map of_char cs"

text \<open>
  \<^verbatim>\<open>String.prototype.trim\<close> removes the white space and the line terminators of
  the language from both ends: TAB, LF, VT, FF, CR, SP, NBSP, the space separators of
  Unicode (U+1680, U+2000..U+200A, U+202F, U+205F, U+3000), LS, PS and the byte order
  mark.
\<close>

definition isWhiteSpace :: "16 word \<Rightarrow> bool" where
  "isWhiteSpace c \<longleftrightarrow>
     c \<in> {0x09, 0x0A, 0x0B, 0x0C, 0x0D, 0x20, 0xA0, 0x1680,
          0x2000, 0x2001, 0x2002, 0x2003, 0x2004, 0x2005, 0x2006, 0x2007, 0x2008,
          0x2009, 0x200A, 0x2028, 0x2029, 0x202F, 0x205F, 0x3000, 0xFEFF}"

definition trim :: "jsstring \<Rightarrow> jsstring" where
  "trim s = rev (dropWhile isWhiteSpace (rev (dropWhile isWhiteSpace s)))"

section \<open>The transcription context (src/contexts/transcription-context.tsx)\<close>

subsection \<open>Errors and promises\<close>

text \<open>
  A thrown \<^verbatim>\<open>new Error(message)\<close> and a rejected promise are the left summand of a
  result; a returned value and a resolved promise are the right one.
\<close>

datatype js_error = Error jsstring

subsection \<open>The summarizer\<close>

record summary =
  text' :: jsstring
  keyPoints :: "jsstring list"
  prescriptions :: "jsstring list"

definition summaryText :: jsstring where
  "summaryText = lit (''Patient reported difficulty sleeping for the past two weeks, primarily trouble falling asleep due to racing thoughts about work. Patient attributes the issue to increased stress from longer work hours and an upcoming project deadline. Patient has tried over-the-counter sleep aids but experienced grogginess as a side effect. Discussed sleep hygiene practices as a first-line approach before considering medication.'')"

definition summaryKeyPoints :: "jsstring list" where
  "summaryKeyPoints =
     [lit ''Insomnia for past two weeks'',
      lit ''Difficulty falling asleep due to racing thoughts'',
      lit ''Work-related stress as likely cause'',
      lit ''Previous negative experience with OTC sleep aids'',
      lit ''Sleep hygiene practices recommended'']"

text \<open>
  \<^verbatim>\<open>generateSummary\<close> waits two seconds and resolves with an object literal; its
  parameter is not read. The wait is the point at which a caller is suspended; the value
  the promise settles with is what is modelled here.
\<close>

definition generateSummary :: "jsstring \<Rightarrow> js_error + summary" where
  "generateSummary transcript =
     Inr \<lparr>text' = summaryText, keyPoints = summaryKeyPoints, prescriptions = []\<rparr>"

subsection \<open>The hook\<close>

text \<open>
  The context is created with the default \<^verbatim>\<open>undefined\<close>; inside a provider
  \<^verbatim>\<open>useContext\<close> gives the provider's value. The argument of \<open>useTranscription\<close> is
  what \<^verbatim>\<open>useContext(TranscriptionContext)\<close> returned, \<open>None\<close> for \<^verbatim>\<open>undefined\<close>.
\<close>

definition useTranscription :: "'ctx option \<Rightarrow> js_error + 'ctx" where
  "useTranscription context =
     (case context of
        None \<Rightarrow> Inl (Error (lit ''useTranscription must be used within a TranscriptionProvider''))
      | Some c \<Rightarrow> Inr c)"

section \<open>Rendered values, component state and the environment\<close>

text \<open>
  Both components are React function components: every render evaluates the component
  body again, and the functions it creates (\<^verbatim>\<open>stopTranscription\<close>,
  \<^verbatim>\<open>handleFinishSession\<close>, ...) close over the values the state variables have in
  that render. A function therefore \<^emph>\<open>reads\<close> the values of the render that created it
  and \<^emph>\<open>writes\<close> through the setters to the current state. The record \<open>render\<close>
  holds the values one render sees: the three state variables of
  \<^verbatim>\<open>TranscriptionProvider\<close> and the four of \<^verbatim>\<open>NewSessionForm\<close>.
  \<open>sessionDuration\<close> starts at 0 and only ever grows by 1, so it is a natural number.
\<close>

type_synonym handle = nat

record render =
  isTranscribing :: bool
  transcript :: jsstring
  transcriptionInterval :: "handle option"
  sessionTitle :: jsstring
  isGeneratingSummary :: bool
  sessionDuration :: nat
  timer :: "handle option"

text \<open>
  A callback registered with \<^verbatim>\<open>setInterval\<close>. The callback of
  \<^verbatim>\<open>startTranscription\<close> carries its own counter \<^verbatim>\<open>let index = 0\<close>; the one of
  \<^verbatim>\<open>handleStartTranscription\<close> has no variable of its own.
\<close>

datatype callback = FragmentSource nat | DurationTick

datatype variant = Default | Destructive

record toast_message =
  t_title :: jsstring
  t_description :: jsstring
  t_variant :: variant

record session_record =
  r_id :: jsstring
  r_title :: jsstring
  r_date :: jsstring
  r_duration :: nat
  r_transcript :: jsstring
  r_summary :: jsstring
  r_keyPoints :: "jsstring list"
  r_prescriptions :: "jsstring list"

text \<open>
  The state of the application extends the current values of the state variables by the
  environment: the intervals that are registered and not cleared (a handle returned by
  \<^verbatim>\<open>setInterval\<close> is never \<^verbatim>\<open>null\<close> and always truthy), the next
  handle, the calls received by the collaborators \<^verbatim>\<open>toast\<close>, \<^verbatim>\<open>addSession\<close> and
  \<^verbatim>\<open>onSessionComplete\<close>, in order, and the invocations of
  \<^verbatim>\<open>handleFinishSession\<close> that are suspended at their \<^verbatim>\<open>await\<close>, each with the
  render whose values it closed over.
\<close>

record app_state = render +
  intervals :: "handle \<rightharpoonup> callback"
  nextHandle :: handle
  toasts :: "toast_message list"
  sessions :: "(jsstring \<times> session_record) list"
  completed :: nat
  pending :: "render list"

definition rendered :: "app_state \<Rightarrow> render" where
  "rendered s =
     \<lparr>isTranscribing = isTranscribing s, transcript = transcript s,
      transcriptionInterval = transcriptionInterval s, sessionTitle = sessionTitle s,
      isGeneratingSummary = isGeneratingSummary s, sessionDuration = sessionDuration s,
      timer = timer s\<rparr>"

definition init :: app_state where
  "init =
     \<lparr>isTranscribing = False, transcript = [], transcriptionInterval = None,
      sessionTitle = [], isGeneratingSummary = False, sessionDuration = 0, timer = None,
      intervals = Map.empty, nextHandle = 1, toasts = [], sessions = [], completed = 0,
      pending = []\<rparr>"

definition setInterval :: "callback \<Rightarrow> app_state \<Rightarrow> handle \<times> app_state" where
  "setInterval cb s =
     (nextHandle s,
      s\<lparr>intervals := (intervals s)(nextHandle s \<mapsto> cb), nextHandle := Suc (nextHandle s)\<rparr>)"

definition clearInterval :: "handle \<Rightarrow> app_state \<Rightarrow> app_state" where
  "clearInterval h s = s\<lparr>intervals := (intervals s)(h := None)\<rparr>"

definition toast :: "toast_message \<Rightarrow> app_state \<Rightarrow> app_state" where
  "toast m s = s\<lparr>toasts := toasts s @ [m]\<rparr>"

definition addSession :: "jsstring \<Rightarrow> session_record \<Rightarrow> app_state \<Rightarrow> app_state" where
  "addSession patientId r s = s\<lparr>sessions := sessions s @ [(patientId, r)]\<rparr>"

definition onSessionComplete :: "app_state \<Rightarrow> app_state" where
  "onSessionComplete s = s\<lparr>completed := Suc (completed s)\<rparr>"

section \<open>The operations of the transcription context\<close>

definition mockPhrases :: "jsstring list" where
  "mockPhrases =
     [lit ''Doctor: Good morning, how are you feeling today?'',
      lit ''Patient: I've been having some trouble sleeping lately.'',
      lit ''Doctor: I'm sorry to hear that. How long has this been going on?'',
      lit ''Patient: For about two weeks now. I think it might be stress-related.'',
      lit ''Doctor: That's certainly possible. Let's talk about your stress levels and sleep habits.'',
      lit ''Patient: I've been working longer hours and have a big project due soon.'',
      lit ''Doctor: I see. Are you having trouble falling asleep or staying asleep?'',
      lit ''Patient: Mostly falling asleep. My mind just keeps racing with thoughts about work.'',
      lit ''Doctor: That's common with stress-induced insomnia. Let's discuss some strategies that might help.'',
      lit ''Patient: That would be great. I've tried over-the-counter sleep aids but they leave me groggy.'',
      lit ''Doctor: I understand. Let's focus on sleep hygiene practices first before considering medication.'']"

text \<open>
  \<^verbatim>\<open>startTranscription\<close> reads no state variable. It sets the flag, registers a
  new interval and stores its handle; it has no test of the flag or of the stored handle.
\<close>

definition startTranscription :: "app_state \<Rightarrow> app_state" where
  "startTranscription s =
     (let s1 = s\<lparr>isTranscribing := True\<rparr>;
          (interval, s2) = setInterval (FragmentSource 0) s1
      in s2\<lparr>transcriptionInterval := Some interval\<rparr>)"

text \<open>
  What \<^verbatim>\<open>mockPhrases[i]\<close> contributes to a string concatenation: the phrase, and
  the text of \<^verbatim>\<open>undefined\<close> when \<open>i\<close> is not an index of the array.
\<close>

definition phraseText :: "nat \<Rightarrow> jsstring" where
  "phraseText i = (if i < length mockPhrases then mockPhrases ! i else lit ''undefined'')"

text \<open>
  The updater \<^verbatim>\<open>(prev) => prev + (prev ? "\n\n" : "") + mockPhrases[index]\<close>. It is a
  closure over the variable \<^verbatim>\<open>index\<close> of its interval: \<open>index\<close> is the value that
  variable has when the updater is run.
\<close>

definition transcriptUpdater :: "nat \<Rightarrow> jsstring \<Rightarrow> jsstring" where
  "transcriptUpdater index prev =
     prev @ (if prev \<noteq> [] then lit ''\<newline>\<newline>'' else []) @ phraseText index"

text \<open>
  The body of the interval's callback, for the interval \<open>interval\<close> whose counter is
  \<open>index\<close>. When the counter is below the length of the array, \<^verbatim>\<open>setTranscript\<close>
  queues the updater and \<^verbatim>\<open>index++\<close> runs; React runs the queued updater when it
  renders the provider next, after the callback has returned, so the updater reads the
  counter already incremented: the first firing appends the second phrase, and the
  eleventh appends "undefined". Otherwise the callback clears its own interval.
\<close>

definition fragmentTick :: "handle \<Rightarrow> nat \<Rightarrow> app_state \<Rightarrow> app_state" where
  "fragmentTick interval index s =
     (if index < length mockPhrases
      then (let s1 = s\<lparr>intervals := (intervals s)(interval \<mapsto> FragmentSource (index + 1))\<rparr>
            in s1\<lparr>transcript := transcriptUpdater (index + 1) (transcript s1)\<rparr>)
      else clearInterval interval s)"

text \<open>
  \<^verbatim>\<open>stopTranscription\<close> reads \<^verbatim>\<open>transcriptionInterval\<close>: the value of the
  render \<open>r\<close> that created the function.
\<close>

definition stopTranscription :: "render \<Rightarrow> app_state \<Rightarrow> app_state" where
  "stopTranscription r s =
     (let s1 = s\<lparr>isTranscribing := False\<rparr>
      in case transcriptionInterval r of
           None \<Rightarrow> s1
         | Some h \<Rightarrow> (clearInterval h s1)\<lparr>transcriptionInterval := None\<rparr>)"

definition resetTranscription :: "render \<Rightarrow> app_state \<Rightarrow> app_state" where
  "resetTranscription r s = (stopTranscription r s)\<lparr>transcript := []\<rparr>"

section \<open>The session form (src/components/patients/new-session-form.tsx)\<close>

definition handleStartTranscription :: "app_state \<Rightarrow> app_state" where
  "handleStartTranscription s =
     (let s1 = startTranscription s;
          (interval, s2) = setInterval DurationTick s1;
          s3 = s2\<lparr>timer := Some interval\<rparr>
      in toast \<lparr>t_title = lit ''Transcription Started'',
                 t_description = lit ''The session is now being recorded and transcribed.'',
                 t_variant = Default\<rparr> s3)"

definition handleStopTranscription :: "render \<Rightarrow> app_state \<Rightarrow> app_state" where
  "handleStopTranscription r s =
     (let s1 = stopTranscription r s;
          s2 = (case timer r of
                  None \<Rightarrow> s1
                | Some h \<Rightarrow> (clearInterval h s1)\<lparr>timer := None\<rparr>)
      in toast \<lparr>t_title = lit ''Transcription Stopped'',
                 t_description = lit ''The session recording has been paused.'',
                 t_variant = Default\<rparr> s2)"

text \<open>The callback of the form's interval: \<^verbatim>\<open>setSessionDuration((prev) => prev + 1)\<close>.\<close>

definition durationTick :: "app_state \<Rightarrow> app_state" where
  "durationTick s = s\<lparr>sessionDuration := sessionDuration s + 1\<rparr>"

text \<open>
  \<^verbatim>\<open>handleFinishSession\<close> is an \<^verbatim>\<open>async\<close> function with one \<^verbatim>\<open>await\<close>. Up to
  the \<^verbatim>\<open>await\<close> it runs at once: the two validations, each ending in an error toast
  and a \<^verbatim>\<open>return\<close>, then \<^verbatim>\<open>setIsGeneratingSummary(true)\<close> and the call of the
  summarizer, at which the invocation is suspended together with the render \<open>r\<close> it
  closed over. \<^verbatim>\<open>!sessionTitle\<close> holds of the empty string only.
\<close>

definition handleFinishSession :: "render \<Rightarrow> app_state \<Rightarrow> app_state" where
  "handleFinishSession r s =
     (if sessionTitle r = []
      then toast \<lparr>t_title = lit ''Error'',
                   t_description = lit ''Please enter a session title.'',
                   t_variant = Destructive\<rparr> s
      else if length (trim (transcript r)) = 0
      then toast \<lparr>t_title = lit ''Error'',
                   t_description = lit ''The transcript is empty. Please record a session first.'',
                   t_variant = Destructive\<rparr> s
      else (s\<lparr>isGeneratingSummary := True\<rparr>)\<lparr>pending := pending s @ [r]\<rparr>)"

text \<open>
  The rest of \<^verbatim>\<open>handleFinishSession\<close>, run when the promise of the summarizer has
  settled with \<open>result\<close>: the \<^verbatim>\<open>try\<close> block on a resolved promise, the
  \<^verbatim>\<open>catch\<close> block on a rejected one, then \<^verbatim>\<open>finally\<close>. The title, the
  transcript, the duration and \<^verbatim>\<open>resetTranscription\<close> are those of the render \<open>r\<close>
  in which the function was invoked; \<open>uuid\<close> and \<open>date\<close> are what
  \<^verbatim>\<open>crypto.randomUUID()\<close> and \<^verbatim>\<open>new Date().toISOString()\<close> return.
  \<^verbatim>\<open>sessionDuration || 1\<close> is 1 when the duration is 0.
\<close>

definition handleFinishSession_resume ::
  "jsstring \<Rightarrow> jsstring \<Rightarrow> jsstring \<Rightarrow> render \<Rightarrow> js_error + summary \<Rightarrow> app_state \<Rightarrow> app_state"
where
  "handleFinishSession_resume patientId uuid date r result s =
     (case result of
        Inr summary \<Rightarrow>
          (let s1 = addSession patientId
                      \<lparr>r_id = uuid, r_title = sessionTitle r, r_date = date,
                       r_duration = (if sessionDuration r = 0 then 1 else sessionDuration r),
                       r_transcript = transcript r, r_summary = text' summary,
                       r_keyPoints = keyPoints summary,
                       r_prescriptions = prescriptions summary\<rparr> s;
               s2 = toast \<lparr>t_title = lit ''Session Completed'',
                           t_description =
                             lit ''The session has been saved and summarized successfully.'',
                           t_variant = Default\<rparr> s1;
               s3 = s2\<lparr>sessionTitle := []\<rparr>;
               s4 = s3\<lparr>sessionDuration := 0\<rparr>;
               s5 = resetTranscription r s4
           in onSessionComplete s5)
      | Inl error \<Rightarrow>
          toast \<lparr>t_title = lit ''Error'',
                 t_description = lit ''Failed to generate summary. Please try again.'',
                 t_variant = Destructive\<rparr> s)
     \<lparr>isGeneratingSummary := False\<rparr>"

text \<open>
  The effect \<^verbatim>\<open>useEffect(() => () => { if (timer) clearInterval(timer) }, [timer])\<close>:
  when a render finds \<^verbatim>\<open>timer\<close> changed, the cleanup of the previous render runs
  and clears the interval that \<^verbatim>\<open>timer\<close> named before.
\<close>

definition effectCleanup :: "handle option \<Rightarrow> app_state \<Rightarrow> app_state" where
  "effectCleanup previous s =
     (if timer s = previous then s
      else case previous of None \<Rightarrow> s | Some h \<Rightarrow> clearInterval h s)"

section \<open>Executions\<close>

text \<open>
  What can happen to the mounted form: a click on one of its four buttons, an edit of
  the title field, the firing of a registered interval, and the settling of the oldest
  pending summarizer promise. Every handler runs to completion on the latest render, and
  the next render (with its effect cleanup) is committed before the next event. The
  summarizer and the patient are what the form receives from its context and its props.
  Time is not measured: a registered interval (3 seconds for fragments, one minute for
  the duration) may fire, and a pending promise (2 seconds in the reference summarizer)
  may settle, between any two other events. The collaborators \<^verbatim>\<open>toast\<close>,
  \<^verbatim>\<open>addSession\<close> and \<^verbatim>\<open>onSessionComplete\<close> return without throwing.
\<close>

datatype event =
    ClickStart
  | ClickStop
  | ClickClear
  | TypeTitle jsstring
  | ClickFinish
  | Fire handle
  | Settle jsstring jsstring

definition handler ::
  "(jsstring \<Rightarrow> js_error + summary) \<Rightarrow> jsstring \<Rightarrow> event \<Rightarrow> app_state \<Rightarrow> app_state"
where
  "handler summarizer patientId e s =
     (case e of
        ClickStart \<Rightarrow> handleStartTranscription s
      | ClickStop \<Rightarrow> handleStopTranscription (rendered s) s
      | ClickClear \<Rightarrow> resetTranscription (rendered s) s
      | TypeTitle v \<Rightarrow> s\<lparr>sessionTitle := v\<rparr>
      | ClickFinish \<Rightarrow> handleFinishSession (rendered s) s
      | Fire h \<Rightarrow>
          (case intervals s h of
             None \<Rightarrow> s
           | Some (FragmentSource index) \<Rightarrow> fragmentTick h index s
           | Some DurationTick \<Rightarrow> durationTick s)
      | Settle uuid date \<Rightarrow>
          (case pending s of
             [] \<Rightarrow> s
           | r # rest \<Rightarrow>
               handleFinishSession_resume patientId uuid date r (summarizer (transcript r))
                 (s\<lparr>pending := rest\<rparr>)))"

definition step ::
  "(jsstring \<Rightarrow> js_error + summary) \<Rightarrow> jsstring \<Rightarrow> event \<Rightarrow> app_state \<Rightarrow> app_state"
where
  "step summarizer patientId e s = effectCleanup (timer s) (handler summarizer patientId e s)"

fun run ::
  "(jsstring \<Rightarrow> js_error + summary) \<Rightarrow> jsstring \<Rightarrow> event list \<Rightarrow> app_state \<Rightarrow> app_state"
where
  "run summarizer patientId [] s = s"
| "run summarizer patientId (e # es) s =
     run summarizer patientId es (step summarizer patientId e s)"

text \<open>
  What the rendered form offers: the Start button is rendered only while
  \<^verbatim>\<open>isTranscribing\<close> is false and the Pause button only while it is true; the Finish
  button is disabled while a summary is generated or the trimmed transcript is empty;
  only a registered interval fires, and only a pending promise settles.
\<close>

definition offered :: "app_state \<Rightarrow> event \<Rightarrow> bool" where
  "offered s e =
     (case e of
        ClickStart \<Rightarrow> \<not> isTranscribing s
      | ClickStop \<Rightarrow> isTranscribing s
      | ClickClear \<Rightarrow> True
      | TypeTitle v \<Rightarrow> True
      | ClickFinish \<Rightarrow> \<not> (isGeneratingSummary s \<or> length (trim (transcript s)) = 0)
      | Fire h \<Rightarrow> intervals s h \<noteq> None
      | Settle uuid date \<Rightarrow> pending s \<noteq> [])"

fun offeredAll ::
  "(jsstring \<Rightarrow> js_error + summary) \<Rightarrow> jsstring \<Rightarrow> event list \<Rightarrow> app_state \<Rightarrow> bool"
where
  "offeredAll summarizer patientId [] s \<longleftrightarrow> True"
| "offeredAll summarizer patientId (e # es) s \<longleftrightarrow>
     offered s e \<and> offeredAll summarizer patientId es (step summarizer patientId e s)"

text \<open>
  Whether the handler of an event, run in a state, calls \<^verbatim>\<open>resetTranscription\<close>: the
  Clear button does, and so does the handler of Finish when it resumes on a resolved
  promise. \<open>noReset\<close> says that no event of an execution does.
\<close>

definition callsReset ::
  "(jsstring \<Rightarrow> js_error + summary) \<Rightarrow> app_state \<Rightarrow> event \<Rightarrow> bool"
where
  "callsReset summarizer s e =
     (case e of
        ClickClear \<Rightarrow> True
      | Settle uuid date \<Rightarrow>
          (case pending s of
             [] \<Rightarrow> False
           | r # rest \<Rightarrow>
               (case summarizer (transcript r) of Inr summary \<Rightarrow> True | Inl error \<Rightarrow> False))
      | _ \<Rightarrow> False)"

fun noReset ::
  "(jsstring \<Rightarrow> js_error + summary) \<Rightarrow> jsstring \<Rightarrow> event list \<Rightarrow> app_state \<Rightarrow> bool"
where
  "noReset summarizer patientId [] s \<longleftrightarrow> True"
| "noReset summarizer patientId (e # es) s \<longleftrightarrow>
     \<not> callsReset summarizer s e \<and>
     noReset summarizer patientId es (step summarizer patientId e s)"

text \<open>
  Every registered duration callback is the one the form's \<^verbatim>\<open>timer\<close> names: at
  most one interval accumulates time.
\<close>

definition oneDurationCounter :: "app_state \<Rightarrow> bool" where
  "oneDurationCounter s \<longleftrightarrow> (\<forall>h. intervals s h = Some DurationTick \<longrightarrow> timer s = Some h)"

text \<open>
  Every registered fragment callback belongs to a session that is active and is the
  one the context's \<^verbatim>\<open>transcriptionInterval\<close> names.
\<close>

definition oneFragmentSource :: "app_state \<Rightarrow> bool" where
  "oneFragmentSource s \<longleftrightarrow>
     (\<forall>h i. intervals s h = Some (FragmentSource i) \<longrightarrow>
        isTranscribing s \<and> transcriptionInterval s = Some h)"

section \<open>Facts about the constants\<close>

lemmas env_defs =
  setInterval_def clearInterval_def toast_def addSession_def onSessionComplete_def

lemmas op_defs =
  startTranscription_def phraseText_def transcriptUpdater_def fragmentTick_def
  stopTranscription_def resetTranscription_def
  handleStartTranscription_def handleStopTranscription_def durationTick_def
  handleFinishSession_def handleFinishSession_resume_def effectCleanup_def handler_def
  step_def rendered_def

lemma lit_eq_Nil [simp]: "lit cs = [] \<longleftrightarrow> cs = []"
  by (simp add: lit_def)

lemma summaryText_nonempty: "summaryText \<noteq> []"
  by (simp add: summaryText_def)

lemma length_mockPhrases: "length mockPhrases = 11"
  by (simp add: mockPhrases_def)

lemma second_phrase:
  "mockPhrases ! Suc 0 = lit ''Patient: I've been having some trouble sleeping lately.''"
  by (simp add: mockPhrases_def)

lemma third_phrase:
  "mockPhrases ! Suc (Suc 0) =
     lit ''Doctor: I'm sorry to hear that. How long has this been going on?''"
  by (simp add: mockPhrases_def)

lemma trim_eq_Nil: "trim s = [] \<longleftrightarrow> list_all isWhiteSpace s"
proof
  assume "trim s = []"
  then have all: "\<forall>x\<in>set (dropWhile isWhiteSpace s). isWhiteSpace x"
    by (simp add: trim_def dropWhile_eq_Nil_conv)
  have "dropWhile isWhiteSpace s = []"
  proof (rule ccontr)
    assume ne: "dropWhile isWhiteSpace s \<noteq> []"
    then have "\<not> isWhiteSpace (hd (dropWhile isWhiteSpace s))"
      by (rule hd_dropWhile)
    moreover have "hd (dropWhile isWhiteSpace s) \<in> set (dropWhile isWhiteSpace s)"
      using ne by (rule hd_in_set)
    ultimately show False using all by blast
  qed
  then show "list_all isWhiteSpace s"
    by (simp add: dropWhile_eq_Nil_conv list_all_iff)
next
  assume "list_all isWhiteSpace s"
  then have d: "dropWhile isWhiteSpace s = []"
    by (simp add: dropWhile_eq_Nil_conv list_all_iff)
  show "trim s = []"
    unfolding trim_def d by simp
qed

lemma trim_letter_first:
  "\<not> isWhiteSpace (of_char c) \<Longrightarrow> trim (lit (c # cs) @ t) \<noteq> []"
  by (simp add: trim_eq_Nil lit_def)

lemma trim_second_phrase_append: "trim (mockPhrases ! Suc 0 @ t) \<noteq> []"
  unfolding second_phrase by (rule trim_letter_first) (simp add: isWhiteSpace_def)

lemma trim_second_phrase: "trim (mockPhrases ! Suc 0) \<noteq> []"
  using trim_second_phrase_append [of "[]"] by simp

lemma second_phrase_nonempty: "mockPhrases ! Suc 0 \<noteq> []"
  by (simp add: second_phrase)

lemmas run_defs = init_def env_defs op_defs Let_def length_mockPhrases numeral_2_eq_2


text \<open>
  The firings of one fragment interval: the first appends the second phrase, and the
  eleventh (counter 10) appends the text of \<^verbatim>\<open>undefined\<close>; from the twelfth on the
  callback clears its interval and the transcript stays.
\<close>

lemma first_firing:
  "transcript (fragmentTick h 0 s) =
     transcript s @ (if transcript s \<noteq> [] then lit ''\<newline>\<newline>'' else []) @ mockPhrases ! 1"
  by (simp add: op_defs Let_def length_mockPhrases)

lemma eleventh_firing:
  "transcript (fragmentTick h 10 s) =
     transcript s @ (if transcript s \<noteq> [] then lit ''\<newline>\<newline>'' else [])
       @ lit ''undefined''"
  by (simp add: op_defs Let_def length_mockPhrases)

lemma twelfth_firing: "transcript (fragmentTick h 11 s) = transcript s"
  by (simp add: op_defs env_defs Let_def length_mockPhrases)

section \<open>The summarizer and the hook\<close>

text \<open>
  C9. The result of \<open>generateSummary\<close> does not depend on the transcript: any two
  invocations, on empty or non-empty input, resolve to the same summary, which has the
  fixed narrative text, the five fixed key points and no prescriptions.
\<close>

theorem generateSummary_constant:
  "generateSummary t1 = generateSummary t2 \<and>
   (\<exists>r. generateSummary t1 = Inr r \<and> text' r = summaryText \<and>
        keyPoints r = summaryKeyPoints \<and> length (keyPoints r) = 5 \<and> prescriptions r = [])"
  by (simp add: generateSummary_def summaryKeyPoints_def)

text \<open>
  C10. \<open>useTranscription\<close> throws the error with the message
  "useTranscription must be used within a TranscriptionProvider" when no context value
  is provided, and returns the provided context unchanged otherwise.
\<close>

theorem useTranscription_result:
  "useTranscription None =
     Inl (Error (lit ''useTranscription must be used within a TranscriptionProvider'')) \<and>
   useTranscription (Some c) = Inr c"
  by (simp add: useTranscription_def)

text \<open>
  C3, as stated: \<open>generateSummary\<close> on the empty string fails with an
  \<^verbatim>\<open>EmptyInputError\<close>. On the empty string the function resolves, with the same
  summary as on every other input.
\<close>

theorem generateSummary_empty_resolves:
  "generateSummary [] =
     Inr \<lparr>text' = summaryText, keyPoints = summaryKeyPoints, prescriptions = []\<rparr>"
  by (simp add: generateSummary_def)

text \<open>
  C3, amended. \<open>generateSummary\<close> resolves on every transcript, the empty one
  included, to a summary whose text is a non-empty string; it never fails. (Empty and
  white-space transcripts are turned away by the caller, \<open>handleFinishSession\<close>.)
\<close>

theorem generateSummary_resolves:
  "(\<exists>r. generateSummary t = Inr r \<and> text' r \<noteq> []) \<and> (\<forall>e. generateSummary t \<noteq> Inl e)"
  by (simp add: generateSummary_def summaryText_nonempty)

section \<open>Start, stop and reset\<close>

text \<open>
  C4, as stated: from every state \<open>reset()\<close> yields an accumulated duration of 0. After
  a start and one firing of the duration interval the duration is 1, and it is still 1
  after the Clear button, which calls \<open>resetTranscription\<close>.
\<close>

theorem reset_keeps_duration:
  "sessionDuration (run generateSummary (lit ''p1'') [ClickStart, Fire 2] init) = 1 \<and>
   sessionDuration (run generateSummary (lit ''p1'') [ClickStart, Fire 2, ClickClear] init) = 1"
  by (simp add: init_def env_defs op_defs Let_def)

text \<open>
  C4, amended. From every state, and whichever render created the function,
  \<open>resetTranscription\<close> yields \<open>isTranscribing = false\<close> and an empty transcript, and
  leaves the accumulated duration as it was.
\<close>

theorem resetTranscription_result:
  "isTranscribing (resetTranscription r s) = False \<and>
   transcript (resetTranscription r s) = [] \<and>
   sessionDuration (resetTranscription r s) = sessionDuration s"
  by (simp add: resetTranscription_def stopTranscription_def clearInterval_def Let_def
      split: option.split)

text \<open>
  C2, as stated: \<open>start()\<close> on an active session changes nothing and creates no second
  fragment source. A second \<open>startTranscription\<close> registers a second interval and
  replaces the stored handle; the first interval stays registered.
\<close>

theorem second_start_registers_second_source:
  "isTranscribing (startTranscription init) \<and>
   transcriptionInterval (startTranscription init) = Some 1 \<and>
   transcriptionInterval (startTranscription (startTranscription init)) = Some 2 \<and>
   intervals (startTranscription (startTranscription init)) 1 = Some (FragmentSource 0) \<and>
   intervals (startTranscription (startTranscription init)) 2 = Some (FragmentSource 0)"
  by (simp add: init_def env_defs op_defs Let_def)

text \<open>
  C2, amended. The Start button on an active session leaves \<open>isTranscribing\<close> true and
  the transcript and the accumulated duration as they were, and it leaves no second
  duration counter: when at most the interval named by \<open>timer\<close> accumulates time before
  the click, the same holds after it.
\<close>

theorem start_while_active:
  assumes "isTranscribing s" and "oneDurationCounter s"
  shows "isTranscribing (step summarizer patientId ClickStart s) \<and>
         transcript (step summarizer patientId ClickStart s) = transcript s \<and>
         sessionDuration (step summarizer patientId ClickStart s) = sessionDuration s \<and>
         oneDurationCounter (step summarizer patientId ClickStart s)"
  using assms
  by (auto simp: oneDurationCounter_def env_defs op_defs Let_def split: option.splits if_splits)

theorem start_while_active_witness:
  "isTranscribing (step generateSummary (lit ''p1'') ClickStart init) \<and>
   oneDurationCounter (step generateSummary (lit ''p1'') ClickStart init) \<and>
   isTranscribing (run generateSummary (lit ''p1'') [ClickStart, ClickStart] init) \<and>
   oneDurationCounter (run generateSummary (lit ''p1'') [ClickStart, ClickStart] init) \<and>
   intervals (run generateSummary (lit ''p1'') [ClickStart, ClickStart] init) 2 = None \<and>
   intervals (run generateSummary (lit ''p1'') [ClickStart, ClickStart] init) 4 =
     Some DurationTick"
proof -
  have a: "isTranscribing (step generateSummary (lit ''p1'') ClickStart init)"
    by (simp add: init_def env_defs op_defs Let_def)
  have b: "oneDurationCounter (step generateSummary (lit ''p1'') ClickStart init)"
    by (auto simp: oneDurationCounter_def init_def env_defs op_defs Let_def
        split: if_splits)
  have c: "intervals (run generateSummary (lit ''p1'') [ClickStart, ClickStart] init) 2 = None"
    by (simp add: init_def env_defs op_defs Let_def)
  have d: "intervals (run generateSummary (lit ''p1'') [ClickStart, ClickStart] init) 4 =
      Some DurationTick"
    by (simp add: init_def env_defs op_defs Let_def)
  show ?thesis
    using a b c d start_while_active [OF a b, of generateSummary "lit ''p1''"]
    by simp
qed

text \<open>The single duration counter is kept by every event.\<close>

lemma oneDurationCounter_step:
  "oneDurationCounter s \<Longrightarrow> oneDurationCounter (step summarizer patientId e s)"
  by (cases e) (auto simp: oneDurationCounter_def env_defs op_defs Let_def
       split: option.splits if_splits callback.splits list.splits sum.splits)

section \<open>Finishing a session\<close>

text \<open>
  C5. Finish is rejected with an error report when the title is empty, and when the
  transcript is empty after trimming: the handler shows the destructive "Error" toast
  and returns. Nothing else changes: the transcript, \<open>isTranscribing\<close> and every other
  state variable are as before, no session record is handed to \<open>addSession\<close>, and no
  summarizer call is pending that could create one later.
\<close>

theorem finish_rejected:
  assumes "sessionTitle s = [] \<or> length (trim (transcript s)) = 0"
  shows "step summarizer patientId ClickFinish s =
           s\<lparr>toasts := toasts s @
                [\<lparr>t_title = lit ''Error'',
                  t_description =
                    (if sessionTitle s = [] then lit ''Please enter a session title.''
                     else lit ''The transcript is empty. Please record a session first.''),
                  t_variant = Destructive\<rparr>]\<rparr>"
  using assms by (auto simp: env_defs op_defs)

theorem finish_rejected_witness:
  "(let s1 = run generateSummary (lit ''p1'') [ClickStart, Fire 1] init;
        s2 = init\<lparr>transcript := lit '' \<newline> '', sessionTitle := lit ''Visit 1''\<rparr>
    in sessionTitle s1 = [] \<and> transcript s1 = mockPhrases ! 1 \<and>
       transcript (step generateSummary (lit ''p1'') ClickFinish s1) = mockPhrases ! 1 \<and>
       isTranscribing (step generateSummary (lit ''p1'') ClickFinish s1) \<and>
       sessions (step generateSummary (lit ''p1'') ClickFinish s1) = [] \<and>
       pending (step generateSummary (lit ''p1'') ClickFinish s1) = [] \<and>
       length (trim (transcript s2)) = 0 \<and>
       transcript (step generateSummary (lit ''p1'') ClickFinish s2) = lit '' \<newline> '' \<and>
       sessions (step generateSummary (lit ''p1'') ClickFinish s2) = [] \<and>
       pending (step generateSummary (lit ''p1'') ClickFinish s2) = [])"
proof -
  define s1 where "s1 = run generateSummary (lit ''p1'') [ClickStart, Fire 1] init"
  define s2 where "s2 = init\<lparr>transcript := lit '' \<newline> '', sessionTitle := lit ''Visit 1''\<rparr>"
  have a: "sessionTitle s1 = []" and a': "transcript s1 = mockPhrases ! 1"
    and a'': "isTranscribing s1 \<and> sessions s1 = [] \<and> pending s1 = []"
    unfolding s1_def by (simp_all add: run_defs)
  have "list_all isWhiteSpace (lit '' \<newline> '')"
    by (simp add: lit_def isWhiteSpace_def)
  then have b: "length (trim (transcript s2)) = 0"
    unfolding s2_def by (simp add: trim_eq_Nil)
  have b': "transcript s2 = lit '' \<newline> '' \<and> sessions s2 = [] \<and> pending s2 = []"
    unfolding s2_def by (simp add: init_def)
  have h1: "sessionTitle s1 = [] \<or> length (trim (transcript s1)) = 0"
    using a by simp
  have h2: "sessionTitle s2 = [] \<or> length (trim (transcript s2)) = 0"
    using b by simp
  have "sessionTitle s1 = [] \<and> transcript s1 = mockPhrases ! 1 \<and>
       transcript (step generateSummary (lit ''p1'') ClickFinish s1) = mockPhrases ! 1 \<and>
       isTranscribing (step generateSummary (lit ''p1'') ClickFinish s1) \<and>
       sessions (step generateSummary (lit ''p1'') ClickFinish s1) = [] \<and>
       pending (step generateSummary (lit ''p1'') ClickFinish s1) = [] \<and>
       length (trim (transcript s2)) = 0 \<and>
       transcript (step generateSummary (lit ''p1'') ClickFinish s2) = lit '' \<newline> '' \<and>
       sessions (step generateSummary (lit ''p1'') ClickFinish s2) = [] \<and>
       pending (step generateSummary (lit ''p1'') ClickFinish s2) = []"
    using a a' a'' b b'
      finish_rejected [OF h1, of generateSummary "lit ''p1''"]
      finish_rejected [OF h2, of generateSummary "lit ''p1''"]
    by simp
  then show ?thesis
    unfolding s1_def s2_def Let_def .
qed

text \<open>
  When the two validations pass, the invocation is suspended at the summarizer call with
  the values of the render in which the button was clicked.
\<close>

lemma finish_suspends:
  assumes "sessionTitle s \<noteq> []" and "length (trim (transcript s)) \<noteq> 0"
  shows "step summarizer patientId ClickFinish s =
           s\<lparr>isGeneratingSummary := True, pending := pending s @ [rendered s]\<rparr>"
  using assms by (simp add: env_defs op_defs)

text \<open>
  C6. When the promise of the summarizer is rejected, the handler shows the destructive
  "Error" toast and clears the in-progress flag, and that is all: no session record is
  handed to \<open>addSession\<close>, \<open>resetTranscription\<close> is not called, and the transcript,
  the title, \<open>isTranscribing\<close> and the registered intervals are as they were.
\<close>

theorem summarizer_failure_keeps_data:
  assumes "pending s = r # rest" and "summarizer (transcript r) = Inl e"
  shows "step summarizer patientId (Settle uuid date) s =
           s\<lparr>pending := rest, isGeneratingSummary := False,
             toasts := toasts s @
               [\<lparr>t_title = lit ''Error'',
                 t_description = lit ''Failed to generate summary. Please try again.'',
                 t_variant = Destructive\<rparr>]\<rparr>"
  using assms by (simp add: env_defs op_defs)

theorem summarizer_failure_keeps_data_witness:
  "(let failing = (\<lambda>t. Inl (Error (lit ''timeout'')));
        s = run failing (lit ''p1'')
              [ClickStart, Fire 1, TypeTitle (lit ''Visit 1''), ClickFinish] init;
        s' = step failing (lit ''p1'') (Settle (lit ''id'') (lit ''now'')) s
    in map transcript (pending s) = [mockPhrases ! 1] \<and>
       sessions s' = [] \<and> transcript s' = mockPhrases ! 1 \<and>
       sessionTitle s' = lit ''Visit 1'' \<and> isTranscribing s' \<and>
       intervals s' 1 = Some (FragmentSource 1) \<and> \<not> isGeneratingSummary s')"
proof -
  define failing :: "jsstring \<Rightarrow> js_error + summary"
    where "failing = (\<lambda>t. Inl (Error (lit ''timeout'')))"
  define s0 where "s0 = run failing (lit ''p1'')
      [ClickStart, Fire 1, TypeTitle (lit ''Visit 1'')] init"
  define s where "s = run failing (lit ''p1'')
      [ClickStart, Fire 1, TypeTitle (lit ''Visit 1''), ClickFinish] init"
  have p: "pending s = [rendered s0]"
    unfolding s_def s0_def by (simp add: run_defs trim_second_phrase)
  have f: "failing (transcript (rendered s0)) = Inl (Error (lit ''timeout''))"
    by (simp add: failing_def)
  show ?thesis
    using summarizer_failure_keeps_data [where summarizer = failing and s = s
        and r = "rendered s0" and rest = "[]" and patientId = "lit ''p1''"
        and uuid = "lit ''id''" and date = "lit ''now''", OF p f]
    unfolding s_def s0_def failing_def
    by (simp add: run_defs trim_second_phrase)
qed

text \<open>
  C7. On a successful finish the session record handed to \<open>addSession\<close> has the
  duration \<open>max 1 d\<close>, where \<open>d\<close> is the accumulated duration that the invocation of
  \<open>handleFinishSession\<close> read (the value of the render in which Finish was clicked):
  \<open>d\<close> itself when positive, 1 when zero, and at least 1 in every case.
\<close>

theorem finish_records_duration:
  assumes "pending s = r # rest" and "summarizer (transcript r) = Inr sm"
  shows "\<exists>record. sessions (step summarizer patientId (Settle uuid date) s) =
             sessions s @ [(patientId, record)] \<and>
           r_duration record = max 1 (sessionDuration r) \<and> 1 \<le> r_duration record"
  using assms by (auto simp: env_defs op_defs Let_def split: option.splits)

theorem finish_records_duration_witness:
  "(let s = run generateSummary (lit ''p1'')
              [ClickStart, Fire 1, Fire 1, ClickStop, TypeTitle (lit ''Visit 1''), ClickFinish]
              init;
        s' = step generateSummary (lit ''p1'') (Settle (lit ''id'') (lit ''now'')) s
    in map sessionDuration (pending s) = [0] \<and>
       map (\<lambda>(p, r). r_duration r) (sessions s') = [1] \<and>
       map (\<lambda>(p, r). r_transcript r) (sessions s') =
         [mockPhrases ! 1 @ lit ''\<newline>\<newline>'' @ mockPhrases ! 2])"
proof -
  define s0 where "s0 = run generateSummary (lit ''p1'')
      [ClickStart, Fire 1, Fire 1, ClickStop, TypeTitle (lit ''Visit 1'')] init"
  define s where "s = run generateSummary (lit ''p1'')
      [ClickStart, Fire 1, Fire 1, ClickStop, TypeTitle (lit ''Visit 1''), ClickFinish] init"
  have p: "pending s = [rendered s0]"
    unfolding s_def s0_def
    by (simp add: run_defs second_phrase_nonempty trim_second_phrase_append)
  have g: "generateSummary (transcript (rendered s0)) =
      Inr \<lparr>text' = summaryText, keyPoints = summaryKeyPoints, prescriptions = []\<rparr>"
    by (simp add: generateSummary_def)
  show ?thesis
    using finish_records_duration [where summarizer = generateSummary and s = s
        and r = "rendered s0" and rest = "[]" and patientId = "lit ''p1''"
        and uuid = "lit ''id''" and date = "lit ''now''", OF p g]
    unfolding s_def s0_def
    by (simp add: run_defs second_phrase_nonempty trim_second_phrase_append generateSummary_def)
qed

section \<open>Growth of the transcript\<close>

text \<open>An event that does not call \<open>resetTranscription\<close> extends the transcript or keeps it.\<close>

lemma step_extends:
  assumes "\<not> callsReset summarizer s e"
  shows "prefix (transcript s) (transcript (step summarizer patientId e s))"
  using assms
  by (cases e) (auto simp: callsReset_def env_defs op_defs Let_def
       split: option.splits callback.splits list.splits sum.splits prod.splits)

text \<open>
  Over every execution in which no event calls \<open>resetTranscription\<close>, from every
  state, active or idle, the transcript at the end has the transcript at the beginning
  as a prefix.
\<close>

lemma transcript_prefix_extension:
  assumes "noReset summarizer patientId evs s"
  shows "prefix (transcript s) (transcript (run summarizer patientId evs s))"
  using assms
proof (induction evs arbitrary: s)
  case Nil
  then show ?case by simp
next
  case (Cons e evs)
  have "prefix (transcript s) (transcript (step summarizer patientId e s))"
    using Cons.prems by (simp add: step_extends)
  moreover have "prefix (transcript (step summarizer patientId e s))
                   (transcript (run summarizer patientId evs (step summarizer patientId e s)))"
    using Cons.prems by (intro Cons.IH) simp
  ultimately have "prefix (transcript s)
                   (transcript (run summarizer patientId evs (step summarizer patientId e s)))"
    by (rule prefix_order.trans)
  then show ?case by simp
qed

text \<open>
  While every registered fragment callback is the one the context names, an event that
  changes the transcript without calling \<open>resetTranscription\<close> finds the session
  active.
\<close>

lemma append_needs_active:
  assumes "oneFragmentSource s" and "\<not> callsReset summarizer s e"
    and "transcript (step summarizer patientId e s) \<noteq> transcript s"
  shows "isTranscribing s"
  using assms
  by (cases e) (auto simp: oneFragmentSource_def callsReset_def env_defs op_defs Let_def
       split: option.splits callback.splits list.splits sum.splits if_splits)

section \<open>No growth after stop\<close>

text \<open>
  While every registered fragment callback is the one the context names, Pause cancels
  them all, and an interval that fires afterwards appends nothing. Every offered event
  other than the settling of a summarizer promise keeps that condition.
\<close>

lemma stop_cancels_sources:
  assumes "oneFragmentSource s"
  shows "intervals (step summarizer patientId ClickStop s) h \<noteq> Some (FragmentSource i)"
  using assms
  by (auto simp: oneFragmentSource_def env_defs op_defs Let_def split: option.splits if_splits)

lemma fire_after_stop:
  assumes "oneFragmentSource s"
  shows "transcript (run summarizer patientId [ClickStop, Fire h] s) = transcript s"
  using assms
  by (auto simp: oneFragmentSource_def env_defs op_defs Let_def
      split: option.splits if_splits callback.splits)

lemma oneFragmentSource_step:
  assumes "oneFragmentSource s" and "offered s e" and "\<forall>uuid date. e \<noteq> Settle uuid date"
  shows "oneFragmentSource (step summarizer patientId e s)"
  using assms
  by (cases e) (auto simp: oneFragmentSource_def offered_def env_defs op_defs Let_def
       split: option.splits if_splits callback.splits list.splits sum.splits)

text \<open>
  C1. After \<open>stop()\<close> has returned and before another \<open>start()\<close> the transcript does
  not grow. The code at an execution in which every event is one the form offers: start,
  one fragment, a title, Finish, and, while the summarizer is pending, Pause and Start
  again; then the promise settles. The suspended handler calls the
  \<open>resetTranscription\<close> of the render in which Finish was clicked, whose
  \<open>stopTranscription\<close> clears interval 1, already cleared; interval 3, registered by
  the second start, stays registered while the state says idle with no stored handle. A
  further \<open>stopTranscription\<close> of the current render changes nothing, and the next
  firing of interval 3 appends a phrase to the empty transcript (the second of the
  script, since the updater reads the incremented counter).
\<close>

theorem transcript_grows_after_stop:
  "offeredAll generateSummary (lit ''p1'')
     [ClickStart, Fire 1, TypeTitle (lit ''Visit 1''), ClickFinish, ClickStop, ClickStart,
      Settle (lit ''id'') (lit ''now''), Fire 3] init \<and>
   (let s = run generateSummary (lit ''p1'')
              [ClickStart, Fire 1, TypeTitle (lit ''Visit 1''), ClickFinish, ClickStop,
               ClickStart, Settle (lit ''id'') (lit ''now'')] init;
        s' = stopTranscription (rendered s) s
    in \<not> isTranscribing s \<and> transcript s = [] \<and> transcriptionInterval s = None \<and>
       s' = s \<and> intervals s' 3 = Some (FragmentSource 0) \<and>
       transcript (step generateSummary (lit ''p1'') (Fire 3) s') = mockPhrases ! 1 \<and>
       mockPhrases ! 1 \<noteq> [])"
  by (simp add: run_defs offered_def trim_second_phrase generateSummary_def
      second_phrase_nonempty)

text \<open>
  C8. The transcript is only ever changed by an append at its end while the session is
  active, or by being cleared on reset. The code at the execution of C1, continued by
  two firings of the interval that the second start registered: neither firing calls
  \<open>resetTranscription\<close>, the session is idle before and after each of them, and each
  appends a phrase to the transcript.
\<close>

theorem transcript_appended_while_idle:
  "(let s = run generateSummary (lit ''p1'')
              [ClickStart, Fire 1, TypeTitle (lit ''Visit 1''), ClickFinish, ClickStop,
               ClickStart, Settle (lit ''id'') (lit ''now'')] init;
        s1 = step generateSummary (lit ''p1'') (Fire 3) s;
        s2 = step generateSummary (lit ''p1'') (Fire 3) s1
    in offeredAll generateSummary (lit ''p1'')
         [ClickStart, Fire 1, TypeTitle (lit ''Visit 1''), ClickFinish, ClickStop,
          ClickStart, Settle (lit ''id'') (lit ''now''), Fire 3, Fire 3] init \<and>
       noReset generateSummary (lit ''p1'') [Fire 3, Fire 3] s \<and>
       \<not> isTranscribing s \<and> \<not> isTranscribing s1 \<and> \<not> isTranscribing s2 \<and>
       transcript s = [] \<and>
       transcript s1 = mockPhrases ! 1 \<and>
       transcript s2 = mockPhrases ! 1 @ lit ''\<newline>\<newline>'' @ mockPhrases ! 2 \<and>
       transcript s2 \<noteq> transcript s1 \<and> transcript s1 \<noteq> transcript s)"
  by (simp add: run_defs offered_def callsReset_def trim_second_phrase generateSummary_def
      second_phrase_nonempty)

text \<open>
  The same leak without the form: two calls of \<open>startTranscription\<close> and one of
  \<open>stopTranscription\<close> leave the first interval registered, and its next firing
  appends to the transcript of the stopped session.
\<close>

lemma double_start_leaks:
  "(let s = stopTranscription (rendered (startTranscription (startTranscription init)))
              (startTranscription (startTranscription init))
    in \<not> isTranscribing s \<and> intervals s 1 = Some (FragmentSource 0) \<and>
       transcript (fragmentTick 1 0 s) = mockPhrases ! 1)"
  by (simp add: run_defs)

end
